theory Spec2Isabelle
  imports Main
begin

section \<open>Bounded per-user dialog history: the SQLite store and the in-memory store\<close>

text \<open>
  The development embeds the two history stores of the repository,
  \<^verbatim>\<open>src/storage/sqlite_history.py\<close> (class \<^verbatim>\<open>SQLiteDialogHistory\<close>, the one
  \<^verbatim>\<open>main.py\<close> instantiates) and \<^verbatim>\<open>src/storage/dialog_history.py\<close> (class
  \<^verbatim>\<open>DialogHistory\<close>). Every method is a function from the store to a result and the
  store afterwards; a raised exception is the \<open>Inl\<close> branch of the result, and the store
  that comes back with it is the store the caller is left with.
\<close>

subsection \<open>Exceptions\<close>

text \<open>
  \<^item> \<open>BeartypeCallHintParamViolation\<close>: both classes are decorated with
    \<^verbatim>\<open>@beartype\<close>, which checks every argument against its annotation when a method is
    called, before the body runs. The only annotation that the HOL types do not already
    enforce is \<^verbatim>\<open>role: Literal["user", "assistant"]\<close>.
  \<^item> \<open>AssertionError\<close>: \<^verbatim>\<open>assert self._db is not None\<close> at the head of every
    method of the SQLite store.
  \<^item> \<open>OverflowError\<close>: a Python \<^verbatim>\<open>int\<close> passed as a parameter of a statement
    must fit the signed 64-bit \<^verbatim>\<open>INTEGER\<close> of SQLite; binding one that does not
    raises, before the statement runs.
  \<^item> \<open>IntegrityError\<close>: the \<^verbatim>\<open>CHECK(role IN ('user', 'assistant'))\<close> constraint
    of the \<^verbatim>\<open>messages\<close> table.
\<close>

datatype error =
  BeartypeCallHintParamViolation | AssertionError | OverflowError | IntegrityError

definition int64 :: "int \<Rightarrow> bool" where
  "int64 i = (- (2 ^ 63) \<le> i \<and> i < 2 ^ 63)"

definition beartype_role :: "string \<Rightarrow> bool" where
  "beartype_role role = (role = ''user'' \<or> role = ''assistant'')"

subsection \<open>SQLite date and time functions\<close>

text \<open>
  The clock is an input: every method that evaluates \<^verbatim>\<open>datetime('now')\<close> or
  \<^verbatim>\<open>date('now')\<close> takes the current instant \<open>now\<close>, in seconds of UTC since the
  epoch. SQLite evaluates both functions in UTC (no \<^verbatim>\<open>'localtime'\<close> modifier appears
  in the source). The text \<^verbatim>\<open>YYYY-MM-DD HH:MM:SS\<close> is modelled by its two fixed-width
  parts, the day and the second within the day; the text \<^verbatim>\<open>YYYY-MM-DD\<close> by the day.
\<close>

record datetime_text =
  date_part :: int
  time_part :: int

definition datetime_now :: "int \<Rightarrow> datetime_text" where
  "datetime_now now = \<lparr>date_part = now div 86400, time_part = now mod 86400\<rparr>"

definition date_now :: "int \<Rightarrow> int" where
  "date_now now = now div 86400"

text \<open>
  \<^verbatim>\<open>created_at >= date('now')\<close> compares two TEXT values byte by byte. The first ten
  bytes of \<^verbatim>\<open>created_at\<close> are its date; when they equal the right-hand side, the longer
  left-hand side is the greater one. So the comparison holds exactly when the date of
  \<^verbatim>\<open>created_at\<close> is not before the right-hand date.
\<close>

definition datetime_ge_date :: "datetime_text \<Rightarrow> int \<Rightarrow> bool" where
  "datetime_ge_date t d = (d \<le> date_part t)"

subsection \<open>The schema (\<^verbatim>\<open>CREATE_TABLES_SQL\<close>)\<close>

record user_row =
  user_id :: int
  username :: "string option"
  first_seen :: datetime_text
  last_seen :: datetime_text

record message_row =
  row_id :: int
  row_user_id :: int
  row_role :: string
  row_content :: string
  created_at :: datetime_text

text \<open>
  A database holds the two tables, each as the list of its rows in the order of their
  insertion, and the counter that \<^verbatim>\<open>AUTOINCREMENT\<close> keeps for \<^verbatim>\<open>messages\<close> in
  \<^verbatim>\<open>sqlite_sequence\<close> (the largest identifier ever given out). The identifiers
  that \<^verbatim>\<open>AUTOINCREMENT\<close> gives out are taken to stay below the 64-bit ceiling.
  A \<open>string\<close> is a text in its UTF-8 encoding, the form in which SQLite stores a
  Python \<^verbatim>\<open>str\<close>.
  Foreign keys are not enforced: the source never switches \<^verbatim>\<open>PRAGMA foreign_keys\<close>
  on.
\<close>

record database =
  users :: "user_row list"
  messages :: "message_row list"
  sqlite_sequence :: int

definition empty_database :: database where
  "empty_database = \<lparr>users = [], messages = [], sqlite_sequence = 0\<rparr>"

subsection \<open>\<^verbatim>\<open>SQLiteDialogHistory\<close>\<close>

text \<open>
  \<open>db_file\<close> is the database at \<^verbatim>\<open>_db_path\<close> as the one connection of the store
  sees it; \<open>db\<close> says whether \<^verbatim>\<open>_db\<close> holds that connection (\<open>False\<close> is
  \<^verbatim>\<open>None\<close>); \<open>sq_max_messages\<close> is \<^verbatim>\<open>_max_messages\<close>. Every call goes
  through the same connection, so what one statement has written every later statement
  reads, committed or not. Every writing method ends with \<^verbatim>\<open>commit()\<close>.
\<close>

record SQLiteDialogHistory =
  db_file :: database
  sq_max_messages :: int
  db :: bool

definition new_store :: "database \<Rightarrow> int \<Rightarrow> SQLiteDialogHistory" where
  "new_store file n = \<lparr>db_file = file, sq_max_messages = n, db = False\<rparr>"

text \<open>\<^verbatim>\<open>CREATE TABLE IF NOT EXISTS\<close> leaves the tables of an existing file alone.\<close>

definition init :: "SQLiteDialogHistory \<Rightarrow> SQLiteDialogHistory" where
  "init s = s\<lparr>db := True\<rparr>"

definition find_user :: "int \<Rightarrow> user_row list \<Rightarrow> user_row option" where
  "find_user uid us = find (\<lambda>u. user_id u = uid) us"

text \<open>
  \<^verbatim>\<open>INSERT ... ON CONFLICT(user_id) DO UPDATE SET username =
  COALESCE(excluded.username, users.username), last_seen = datetime('now')\<close>.
  \<^verbatim>\<open>COALESCE\<close> returns its first argument that is not NULL; Python's \<^verbatim>\<open>None\<close> is
  bound as NULL and every \<^verbatim>\<open>str\<close>, the empty one too, as TEXT.
\<close>

definition coalesce :: "'a option \<Rightarrow> 'a option \<Rightarrow> 'a option" where
  "coalesce a b = (case a of Some x \<Rightarrow> Some x | None \<Rightarrow> b)"

definition upsert_row :: "int \<Rightarrow> string option \<Rightarrow> int \<Rightarrow> user_row list \<Rightarrow> user_row list" where
  "upsert_row uid name now us =
     (case find_user uid us of
        None \<Rightarrow> us @ [\<lparr>user_id = uid, username = name,
                       first_seen = datetime_now now, last_seen = datetime_now now\<rparr>]
      | Some _ \<Rightarrow>
          map (\<lambda>u. if user_id u = uid
                    then u\<lparr>username := coalesce name (username u),
                           last_seen := datetime_now now\<rparr>
                    else u) us)"

definition upsert_user ::
  "int \<Rightarrow> string option \<Rightarrow> int \<Rightarrow> SQLiteDialogHistory \<Rightarrow> (error + unit) \<times> SQLiteDialogHistory" where
  "upsert_user uid name now s =
     (if \<not> db s then (Inl AssertionError, s)
      else if \<not> int64 uid then (Inl OverflowError, s)
      else (Inr (), s\<lparr>db_file := (db_file s)\<lparr>users := upsert_row uid name now (users (db_file s))\<rparr>\<rparr>))"

text \<open>
  \<^verbatim>\<open>INSERT INTO messages (user_id, role, content) VALUES (?, ?, ?)\<close>. The new
  \<^verbatim>\<open>id\<close> is one more than the largest identifier the table holds or has ever held;
  \<^verbatim>\<open>created_at\<close> takes its default.
\<close>

definition next_id :: "database \<Rightarrow> int" where
  "next_id d = Max (set (sqlite_sequence d # map row_id (messages d))) + 1"

definition new_row :: "int \<Rightarrow> string \<Rightarrow> string \<Rightarrow> int \<Rightarrow> database \<Rightarrow> message_row" where
  "new_row uid role content now d =
     \<lparr>row_id = next_id d, row_user_id = uid, row_role = role,
      row_content = content, created_at = datetime_now now\<rparr>"

definition insert_message :: "int \<Rightarrow> string \<Rightarrow> string \<Rightarrow> int \<Rightarrow> database \<Rightarrow> error + database" where
  "insert_message uid role content now d =
     (if \<not> (role = ''user'' \<or> role = ''assistant'') then Inl IntegrityError
      else Inr (d\<lparr>messages := messages d @ [new_row uid role content now d],
                    sqlite_sequence := next_id d\<rparr>))"

text \<open>\<^verbatim>\<open>LIMIT n\<close>: a negative \<open>n\<close> means no upper bound on the number of rows.\<close>

definition sql_limit :: "int \<Rightarrow> 'a list \<Rightarrow> 'a list" where
  "sql_limit n xs = (if n < 0 then xs else take (nat n) xs)"

definition rows_of :: "int \<Rightarrow> message_row list \<Rightarrow> message_row list" where
  "rows_of uid ms = filter (\<lambda>m. row_user_id m = uid) ms"

text \<open>
  \<^verbatim>\<open>SELECT id FROM messages WHERE user_id = ? ORDER BY id DESC LIMIT ?\<close>, and the
  \<^verbatim>\<open>DELETE\<close> around it.
\<close>

definition kept_ids :: "int \<Rightarrow> int \<Rightarrow> message_row list \<Rightarrow> int list" where
  "kept_ids uid n ms = sql_limit n (rev (sort (map row_id (rows_of uid ms))))"

definition trim_messages :: "int \<Rightarrow> int \<Rightarrow> database \<Rightarrow> database" where
  "trim_messages uid n d =
     d\<lparr>messages := filter (\<lambda>m. \<not> (row_user_id m = uid \<and> row_id m \<notin> set (kept_ids uid n (messages d))))
                           (messages d)\<rparr>"

text \<open>
  \<^verbatim>\<open>add_message\<close> awaits two statements and then the commit. The first part is
  the type check of the decorated method, the assertion, and the \<^verbatim>\<open>INSERT\<close>, whose
  parameters are bound before it runs. The second part is the \<^verbatim>\<open>DELETE\<close>, with
  \<^verbatim>\<open>_max_messages\<close> bound as the limit, and the commit. A statement that raises
  ends the method there: when it is the \<^verbatim>\<open>DELETE\<close>, the row inserted before it
  stays on the connection.
\<close>

definition add_message_insert ::
  "int \<Rightarrow> string \<Rightarrow> string \<Rightarrow> int \<Rightarrow> SQLiteDialogHistory \<Rightarrow> (error + unit) \<times> SQLiteDialogHistory" where
  "add_message_insert uid role content now s =
     (if \<not> beartype_role role then (Inl BeartypeCallHintParamViolation, s)
      else if \<not> db s then (Inl AssertionError, s)
      else if \<not> int64 uid then (Inl OverflowError, s)
      else case insert_message uid role content now (db_file s) of
             Inl e \<Rightarrow> (Inl e, s)
           | Inr d \<Rightarrow> (Inr (), s\<lparr>db_file := d\<rparr>))"

definition add_message_trim ::
  "int \<Rightarrow> SQLiteDialogHistory \<Rightarrow> (error + unit) \<times> SQLiteDialogHistory" where
  "add_message_trim uid s =
     (if \<not> int64 (sq_max_messages s) then (Inl OverflowError, s)
      else (Inr (), s\<lparr>db_file := trim_messages uid (sq_max_messages s) (db_file s)\<rparr>))"

definition add_message ::
  "int \<Rightarrow> string \<Rightarrow> string \<Rightarrow> int \<Rightarrow> SQLiteDialogHistory \<Rightarrow> (error + unit) \<times> SQLiteDialogHistory" where
  "add_message uid role content now s =
     (case add_message_insert uid role content now s of
        (Inl e, s1) \<Rightarrow> (Inl e, s1)
      | (Inr _, s1) \<Rightarrow> add_message_trim uid s1)"

text \<open>
  The methods are coroutines on one event loop, and a coroutine gives way to others at
  each \<^verbatim>\<open>await\<close>. Between the two awaited statements of \<^verbatim>\<open>add_message\<close> a call
  \<open>other\<close> of another coroutine can run on the shared connection;
  \<open>add_message_interleaved\<close> is that schedule, returning what the other call returned.
\<close>

definition add_message_interleaved ::
  "(SQLiteDialogHistory \<Rightarrow> 'a \<times> SQLiteDialogHistory) \<Rightarrow> int \<Rightarrow> string \<Rightarrow> string \<Rightarrow> int \<Rightarrow>
     SQLiteDialogHistory \<Rightarrow> 'a option \<times> (error + unit) \<times> SQLiteDialogHistory" where
  "add_message_interleaved other uid role content now s =
     (case add_message_insert uid role content now s of
        (Inl e, s1) \<Rightarrow> (None, Inl e, s1)
      | (Inr _, s1) \<Rightarrow>
          (case other s1 of
             (x, s2) \<Rightarrow> (case add_message_trim uid s2 of (y, s3) \<Rightarrow> (Some x, y, s3))))"

text \<open>
  \<^verbatim>\<open>SELECT role, content FROM messages WHERE user_id = ? ORDER BY id ASC\<close>; each
  row becomes the dictionary \<^verbatim>\<open>{"role": row[0], "content": row[1]}\<close>, modelled as the
  pair of its two values.
\<close>

definition get_history ::
  "int \<Rightarrow> SQLiteDialogHistory \<Rightarrow> (error + (string \<times> string) list) \<times> SQLiteDialogHistory" where
  "get_history uid s =
     (if \<not> db s then (Inl AssertionError, s)
      else if \<not> int64 uid then (Inl OverflowError, s)
      else (Inr (map (\<lambda>m. (row_role m, row_content m))
                     (sort_key row_id (rows_of uid (messages (db_file s))))), s))"

text \<open>\<^verbatim>\<open>DELETE FROM messages WHERE user_id = ?\<close>.\<close>

definition clear :: "int \<Rightarrow> SQLiteDialogHistory \<Rightarrow> (error + unit) \<times> SQLiteDialogHistory" where
  "clear uid s =
     (if \<not> db s then (Inl AssertionError, s)
      else if \<not> int64 uid then (Inl OverflowError, s)
      else (Inr (), s\<lparr>db_file := (db_file s)\<lparr>messages :=
                          filter (\<lambda>m. row_user_id m \<noteq> uid) (messages (db_file s))\<rparr>\<rparr>))"

text \<open>
  \<^verbatim>\<open>SELECT COUNT(*) FROM messages WHERE user_id = ?\<close>. An aggregate query without
  \<^verbatim>\<open>GROUP BY\<close> always yields one row, so the \<^verbatim>\<open>else 0\<close> of
  \<^verbatim>\<open>row[0] if row else 0\<close> is never taken, here and in \<^verbatim>\<open>get_stats\<close>.
\<close>

definition get_message_count :: "int \<Rightarrow> SQLiteDialogHistory \<Rightarrow> (error + int) \<times> SQLiteDialogHistory" where
  "get_message_count uid s =
     (if \<not> db s then (Inl AssertionError, s)
      else if \<not> int64 uid then (Inl OverflowError, s)
      else (Inr (int (length (rows_of uid (messages (db_file s))))), s))"

text \<open>
  \<^verbatim>\<open>get_stats\<close> fills a dictionary with four counts: \<^verbatim>\<open>COUNT(*)\<close> of
  \<^verbatim>\<open>users\<close>, \<^verbatim>\<open>COUNT(*)\<close> of \<^verbatim>\<open>messages\<close>, \<^verbatim>\<open>COUNT(*)\<close> of the messages
  with \<^verbatim>\<open>role = 'user'\<close>, and \<^verbatim>\<open>COUNT(DISTINCT user_id)\<close> of the messages with
  \<^verbatim>\<open>created_at >= date('now')\<close>.
\<close>

record stats =
  total_users :: int
  total_messages :: int
  user_messages :: int
  active_today :: int

definition get_stats :: "int \<Rightarrow> SQLiteDialogHistory \<Rightarrow> (error + stats) \<times> SQLiteDialogHistory" where
  "get_stats now s =
     (if \<not> db s then (Inl AssertionError, s)
      else let d = db_file s in
        (Inr \<lparr>total_users = int (length (users d)),
              total_messages = int (length (messages d)),
              user_messages = int (length (filter (\<lambda>m. row_role m = ''user'') (messages d))),
              active_today = int (length (remdups (map row_user_id
                 (filter (\<lambda>m. datetime_ge_date (created_at m) (date_now now)) (messages d)))))\<rparr>, s))"

subsection \<open>\<^verbatim>\<open>DialogHistory\<close>\<close>

record Message =
  role :: string
  content :: string

text \<open>
  \<open>history\<close> is \<^verbatim>\<open>_history\<close>, a \<^verbatim>\<open>defaultdict(list)\<close>: reading a key that is
  absent stores the empty list under it and returns it.
\<close>

record DialogHistory =
  max_messages :: int
  history :: "int \<rightharpoonup> Message list"

definition new_history :: "int \<Rightarrow> DialogHistory" where
  "new_history n = \<lparr>max_messages = n, history = Map.empty\<rparr>"

definition getitem :: "(int \<rightharpoonup> Message list) \<Rightarrow> int \<Rightarrow> Message list \<times> (int \<rightharpoonup> Message list)" where
  "getitem h uid = (case h uid of None \<Rightarrow> ([], h(uid \<mapsto> [])) | Some ms \<Rightarrow> (ms, h))"

text \<open>Python's \<^verbatim>\<open>xs[k:]\<close>: a negative \<open>k\<close> counts from the end, and both ends clamp.\<close>

definition slice_from :: "int \<Rightarrow> 'a list \<Rightarrow> 'a list" where
  "slice_from k xs =
     (let n = int (length xs);
          start = (if k < 0 then max 0 (n + k) else min k n)
      in drop (nat start) xs)"

text \<open>
  \<^verbatim>\<open>add_message\<close> appends to the list held under the key, in place, and replaces
  it by \<^verbatim>\<open>messages[-self.max_messages:]\<close> when it has become longer than
  \<^verbatim>\<open>max_messages\<close>.
\<close>

definition mem_add_message ::
  "int \<Rightarrow> string \<Rightarrow> string \<Rightarrow> DialogHistory \<Rightarrow> (error + unit) \<times> DialogHistory" where
  "mem_add_message uid r c s =
     (if \<not> beartype_role r then (Inl BeartypeCallHintParamViolation, s)
      else let (ms, h) = getitem (history s) uid;
               ms' = ms @ [\<lparr>role = r, content = c\<rparr>]
           in if int (length ms') > max_messages s
              then (Inr (), s\<lparr>history := h(uid \<mapsto> slice_from (- max_messages s) ms')\<rparr>)
              else (Inr (), s\<lparr>history := h(uid \<mapsto> ms')\<rparr>))"

definition mem_get_history ::
  "int \<Rightarrow> DialogHistory \<Rightarrow> (error + (string \<times> string) list) \<times> DialogHistory" where
  "mem_get_history uid s =
     (let (ms, h) = getitem (history s) uid
      in (Inr (map (\<lambda>msg. (role msg, content msg)) ms), s\<lparr>history := h\<rparr>))"

definition mem_clear :: "int \<Rightarrow> DialogHistory \<Rightarrow> (error + unit) \<times> DialogHistory" where
  "mem_clear uid s = (Inr (), s\<lparr>history := (history s)(uid \<mapsto> [])\<rparr>)"

definition mem_get_message_count :: "int \<Rightarrow> DialogHistory \<Rightarrow> (error + int) \<times> DialogHistory" where
  "mem_get_message_count uid s =
     (let (ms, h) = getitem (history s) uid
      in (Inr (int (length ms)), s\<lparr>history := h\<rparr>))"

subsection \<open>Clients: sequences of calls on the shared interface\<close>

text \<open>
  The comment \<^verbatim>\<open>Core API (same interface as in-memory DialogHistory)\<close> in the SQLite
  store names the four methods both classes have. A client is a list of such calls; a
  call that raises ends there and the client goes on with the store as that call left it
  (as the handlers' error middleware does). A call on the SQLite store comes with the
  clock reading at which it runs.
\<close>

datatype call = Add_message int string string | Get_history int | Clear int | Get_message_count int

datatype outcome =
  Raised error | Returned_None | Returned_history "(string \<times> string) list" | Returned_count int

definition outcome_of :: "('a \<Rightarrow> outcome) \<Rightarrow> error + 'a \<Rightarrow> outcome" where
  "outcome_of f x = (case x of Inl e \<Rightarrow> Raised e | Inr v \<Rightarrow> f v)"

fun sql_call :: "call \<Rightarrow> int \<Rightarrow> SQLiteDialogHistory \<Rightarrow> outcome \<times> SQLiteDialogHistory" where
  "sql_call (Add_message uid r c) now s = apfst (outcome_of (\<lambda>_. Returned_None)) (add_message uid r c now s)"
| "sql_call (Get_history uid) now s = apfst (outcome_of Returned_history) (get_history uid s)"
| "sql_call (Clear uid) now s = apfst (outcome_of (\<lambda>_. Returned_None)) (clear uid s)"
| "sql_call (Get_message_count uid) now s = apfst (outcome_of Returned_count) (get_message_count uid s)"

fun mem_call :: "call \<Rightarrow> DialogHistory \<Rightarrow> outcome \<times> DialogHistory" where
  "mem_call (Add_message uid r c) s = apfst (outcome_of (\<lambda>_. Returned_None)) (mem_add_message uid r c s)"
| "mem_call (Get_history uid) s = apfst (outcome_of Returned_history) (mem_get_history uid s)"
| "mem_call (Clear uid) s = apfst (outcome_of (\<lambda>_. Returned_None)) (mem_clear uid s)"
| "mem_call (Get_message_count uid) s = apfst (outcome_of Returned_count) (mem_get_message_count uid s)"


fun sql_run :: "(call \<times> int) list \<Rightarrow> SQLiteDialogHistory \<Rightarrow> outcome list \<times> SQLiteDialogHistory" where
  "sql_run [] s = ([], s)"
| "sql_run ((c, now) # cs) s =
     (fst (sql_call c now s) # fst (sql_run cs (snd (sql_call c now s))),
      snd (sql_run cs (snd (sql_call c now s))))"

fun mem_run :: "call list \<Rightarrow> DialogHistory \<Rightarrow> outcome list \<times> DialogHistory" where
  "mem_run [] s = ([], s)"
| "mem_run (c # cs) s =
     (fst (mem_call c s) # fst (mem_run cs (snd (mem_call c s))),
      snd (mem_run cs (snd (mem_call c s))))"

subsection \<open>Notions used in the statements\<close>

text \<open>
  \<open>ids_increasing\<close>: the rows of \<^verbatim>\<open>messages\<close>, in insertion order, carry strictly
  increasing identifiers. It holds of the empty table and every method keeps it
  (\<^verbatim>\<open>AUTOINCREMENT\<close> gives each new row an identifier above all others, and deleting
  rows cannot disturb the order). \<open>users_unique\<close> is the primary key of \<^verbatim>\<open>users\<close>.
\<close>

definition ids_increasing :: "database \<Rightarrow> bool" where
  "ids_increasing d = sorted_wrt (<) (map row_id (messages d))"

definition users_unique :: "database \<Rightarrow> bool" where
  "users_unique d = distinct (map user_id (users d))"

text \<open>
  \<open>window_start n len\<close>: how many of \<open>len\<close> rows, counted from the oldest, a trim with
  \<^verbatim>\<open>LIMIT n\<close> deletes.
\<close>

definition window_start :: "int \<Rightarrow> nat \<Rightarrow> nat" where
  "window_start n len = (if n < 0 then 0 else len - nat n)"

text \<open>\<open>stored s uid\<close>: the list that \<^verbatim>\<open>_history[uid]\<close> evaluates to.\<close>

definition stored :: "DialogHistory \<Rightarrow> int \<Rightarrow> Message list" where
  "stored s uid = fst (getitem (history s) uid)"


text \<open>
  The daily-active count as the specification words it: distinct users with a message
  created on the current calendar day by the server-local date, where \<open>offset\<close> is the
  server's distance from UTC in seconds.
\<close>

definition local_date :: "int \<Rightarrow> datetime_text \<Rightarrow> int" where
  "local_date offset t = (date_part t * 86400 + time_part t + offset) div 86400"

definition spec_active_today :: "int \<Rightarrow> int \<Rightarrow> database \<Rightarrow> int" where
  "spec_active_today offset now d =
     int (length (remdups (map row_user_id
       (filter (\<lambda>m. local_date offset (created_at m) = (now + offset) div 86400) (messages d)))))"


subsection \<open>States used in examples\<close>

text \<open>
  \<open>fresh_store n\<close> is the store that \<^verbatim>\<open>main.py\<close> builds when the database file
  does not exist yet: constructed with limit \<open>n\<close>, then opened. \<open>user_rows uid s\<close> are
  the rows of one user, in table order.
\<close>

abbreviation fresh_store :: "int \<Rightarrow> SQLiteDialogHistory" where
  "fresh_store n \<equiv> init (new_store empty_database n)"

abbreviation user_rows :: "int \<Rightarrow> SQLiteDialogHistory \<Rightarrow> message_row list" where
  "user_rows uid s \<equiv> rows_of uid (messages (db_file s))"

text \<open>
  Five stores reached from a fresh one through the methods: one with two messages of
  user 42; one with user 1 registered as alice and no message; one with two users and five
  messages, two of them written on day 0 by user 1 and three on day 1 by user 2; one
  with limit 3 that holds three messages of user 42; and one with a single message
  written at 23:30 UTC of day 0.
\<close>

definition two_message_store :: SQLiteDialogHistory where
  "two_message_store =
     snd (add_message 42 ''assistant'' ''b'' 2 (snd (add_message 42 ''user'' ''a'' 1 (fresh_store 3))))"

definition registered_store :: SQLiteDialogHistory where
  "registered_store = snd (upsert_user 1 (Some ''alice'') 10 (fresh_store 20))"

definition stats_scenario :: SQLiteDialogHistory where
  "stats_scenario =
     snd (add_message 2 ''user'' ''e'' 86700
    (snd (add_message 2 ''assistant'' ''d'' 86600
    (snd (add_message 2 ''user'' ''c'' 86500
    (snd (add_message 1 ''assistant'' ''b'' 300
    (snd (add_message 1 ''user'' ''a'' 200
    (snd (upsert_user 2 None 86400
    (snd (upsert_user 1 (Some ''alice'') 100 (fresh_store 20))))))))))))))"

definition full_window_store :: SQLiteDialogHistory where
  "full_window_store =
     snd (add_message 42 ''user'' ''c'' 3
    (snd (add_message 42 ''assistant'' ''b'' 2
    (snd (add_message 42 ''user'' ''a'' 1 (fresh_store 3))))))"

definition late_evening_store :: SQLiteDialogHistory where
  "late_evening_store =
     snd (add_message 1 ''user'' ''a'' 84600 (snd (upsert_user 1 None 84600 (fresh_store 20))))"

section \<open>Properties\<close>

subsection \<open>Lists\<close>

lemma filter_drop_distinct:
  "distinct (map f xs) \<Longrightarrow> filter (\<lambda>x. f x \<in> f ` set (drop k xs)) xs = drop k xs"
proof (induction xs arbitrary: k)
  case Nil
  then show ?case by simp
next
  case (Cons a xs)
  show ?case
  proof (cases k)
    case 0
    then show ?thesis by simp
  next
    case (Suc j)
    have "f a \<notin> f ` set (drop j xs)"
      using Cons.prems by (auto dest: in_set_dropD)
    with Cons Suc show ?thesis by simp
  qed
qed

lemma strict_sorted_filter: "sorted_wrt (<) (map f xs) \<Longrightarrow> sorted_wrt (<) (map f (filter P xs))"
  by (induction xs) auto

lemma rows_of_increasing:
  "sorted_wrt (<) (map row_id ms) \<Longrightarrow> sorted_wrt (<) (map row_id (rows_of uid ms))"
  unfolding rows_of_def by (rule strict_sorted_filter)

lemma strict_sorted_sort: "sorted_wrt (<) (xs :: int list) \<Longrightarrow> sort xs = xs"
  by (simp add: sorted_sort_id strict_sorted_iff)

lemma kept_ids_increasing:
  assumes "sorted_wrt (<) (map row_id ms)"
  shows "set (kept_ids uid n ms) =
         row_id ` set (drop (if n < 0 then 0 else length (rows_of uid ms) - nat n) (rows_of uid ms))"
proof -
  have "sort (map row_id (rows_of uid ms)) = map row_id (rows_of uid ms)"
    using assms by (intro strict_sorted_sort rows_of_increasing)
  then show ?thesis
    by (simp add: kept_ids_def sql_limit_def take_rev drop_map)
qed

lemma rows_of_trim_same:
  assumes "sorted_wrt (<) (map row_id ms)"
  shows "rows_of uid (filter (\<lambda>m. \<not> (row_user_id m = uid \<and> row_id m \<notin> set (kept_ids uid n ms))) ms) =
         drop (if n < 0 then 0 else length (rows_of uid ms) - nat n) (rows_of uid ms)"
proof -
  let ?k = "if n < 0 then 0 else length (rows_of uid ms) - nat n"
  have d: "distinct (map row_id (rows_of uid ms))"
    using rows_of_increasing [OF assms] by (simp add: strict_sorted_iff)
  have "rows_of uid (filter (\<lambda>m. \<not> (row_user_id m = uid \<and> row_id m \<notin> set (kept_ids uid n ms))) ms) =
        filter (\<lambda>m. row_id m \<in> set (kept_ids uid n ms)) (rows_of uid ms)"
    unfolding rows_of_def by (auto intro: filter_cong)
  also have "\<dots> = filter (\<lambda>m. row_id m \<in> row_id ` set (drop ?k (rows_of uid ms))) (rows_of uid ms)"
    by (simp only: kept_ids_increasing [OF assms])
  also have "\<dots> = drop ?k (rows_of uid ms)"
    using d by (rule filter_drop_distinct)
  finally show ?thesis .
qed

lemma rows_of_trim_other:
  "v \<noteq> uid \<Longrightarrow>
   rows_of v (filter (\<lambda>m. \<not> (row_user_id m = uid \<and> row_id m \<notin> set K)) ms) = rows_of v ms"
  unfolding rows_of_def by (auto intro: filter_cong)


subsection \<open>The bound of SQLite integers\<close>

lemma int64_numerals:
  "int64 1" "int64 2" "int64 3" "int64 7" "int64 20" "int64 42"
  "\<not> int64 9223372036854775808"
  by (simp_all add: int64_def)

subsection \<open>Inserting and trimming in the SQLite store\<close>

lemma next_id_greater: "m \<in> set (messages d) \<Longrightarrow> row_id m < next_id d"
proof -
  assume "m \<in> set (messages d)"
  then have "row_id m \<le> Max (set (sqlite_sequence d # map row_id (messages d)))"
    by (intro Max_ge) auto
  then show ?thesis by (simp add: next_id_def)
qed

lemma sorted_wrt_snoc_less:
  "sorted_wrt (<) (map f xs) \<Longrightarrow> (\<And>x. x \<in> set xs \<Longrightarrow> f x < f y) \<Longrightarrow> sorted_wrt (<) (map f (xs @ [y]))"
  by (simp add: sorted_wrt_append)

lemma insert_message_ok:
  "beartype_role r \<Longrightarrow>
   insert_message uid r c now d =
     Inr (d\<lparr>messages := messages d @ [new_row uid r c now d], sqlite_sequence := next_id d\<rparr>)"
  by (simp add: insert_message_def beartype_role_def new_row_def)

lemma inserted_increasing:
  assumes "ids_increasing d"
  shows "sorted_wrt (<) (map row_id (messages d @ [new_row uid r c now d]))"
proof -
  have "\<And>x. x \<in> set (messages d) \<Longrightarrow> row_id x < row_id (new_row uid r c now d)"
    by (simp add: new_row_def next_id_greater)
  with assms show ?thesis
    unfolding ids_increasing_def by (intro sorted_wrt_snoc_less)
qed

lemma rows_of_snoc:
  "rows_of uid (ms @ [new_row uid r c now d]) = rows_of uid ms @ [new_row uid r c now d]"
  "v \<noteq> uid \<Longrightarrow> rows_of v (ms @ [new_row uid r c now d]) = rows_of v ms"
  by (simp_all add: rows_of_def new_row_def)

lemma add_message_insert_ok:
  "beartype_role r \<Longrightarrow> db s \<Longrightarrow> int64 uid \<Longrightarrow>
   add_message_insert uid r c now s =
     (Inr (), s\<lparr>db_file := (db_file s)\<lparr>messages := messages (db_file s) @ [new_row uid r c now (db_file s)],
                                       sqlite_sequence := next_id (db_file s)\<rparr>\<rparr>)"
  by (simp add: add_message_insert_def insert_message_ok)

lemma add_message_insert_raises:
  "\<not> (beartype_role r \<and> db s \<and> int64 uid) \<Longrightarrow>
   snd (add_message_insert uid r c now s) = s \<and> (\<exists>e. fst (add_message_insert uid r c now s) = Inl e)"
  by (auto simp: add_message_insert_def)

lemma add_message_ok:
  "beartype_role r \<Longrightarrow> db s \<Longrightarrow> int64 uid \<Longrightarrow> int64 (sq_max_messages s) \<Longrightarrow>
   add_message uid r c now s =
     (Inr (), s\<lparr>db_file := trim_messages uid (sq_max_messages s)
        ((db_file s)\<lparr>messages := messages (db_file s) @ [new_row uid r c now (db_file s)],
                     sqlite_sequence := next_id (db_file s)\<rparr>)\<rparr>)"
  by (simp add: add_message_def add_message_insert_ok add_message_trim_def)

lemma add_message_overflow:
  "beartype_role r \<Longrightarrow> db s \<Longrightarrow> int64 uid \<Longrightarrow> \<not> int64 (sq_max_messages s) \<Longrightarrow>
   add_message uid r c now s =
     (Inl OverflowError,
      s\<lparr>db_file := (db_file s)\<lparr>messages := messages (db_file s) @ [new_row uid r c now (db_file s)],
                                  sqlite_sequence := next_id (db_file s)\<rparr>\<rparr>)"
  by (simp add: add_message_def add_message_insert_ok add_message_trim_def)

lemma add_message_raises:
  assumes "\<not> (beartype_role r \<and> db s \<and> int64 uid)"
  shows "snd (add_message uid r c now s) = s"
proof -
  obtain e where "add_message_insert uid r c now s = (Inl e, s)"
    using add_message_insert_raises [OF assms, of c now]
    by (cases "add_message_insert uid r c now s") auto
  then show ?thesis by (simp add: add_message_def)
qed

lemma add_message_cases:
  obtains (raised) "snd (add_message uid r c now s) = s"
  | (overflow) "beartype_role r" "db s" "int64 uid" "\<not> int64 (sq_max_messages s)"
  | (returned) "beartype_role r" "db s" "int64 uid" "int64 (sq_max_messages s)"
  using add_message_raises by blast

lemma add_message_messages:
  assumes "beartype_role r" "db s" "int64 uid" "int64 (sq_max_messages s)"
  shows "messages (db_file (snd (add_message uid r c now s))) =
         filter (\<lambda>m. \<not> (row_user_id m = uid \<and> row_id m \<notin> set (kept_ids uid (sq_max_messages s)
                    (messages (db_file s) @ [new_row uid r c now (db_file s)]))))
                (messages (db_file s) @ [new_row uid r c now (db_file s)])"
  using assms by (simp add: add_message_ok trim_messages_def del: filter_append)

lemma add_message_rows_same:
  assumes "ids_increasing (db_file s)" "beartype_role r" "db s" "int64 uid" "int64 (sq_max_messages s)"
  shows "rows_of uid (messages (db_file (snd (add_message uid r c now s)))) =
         drop (window_start (sq_max_messages s) (Suc (length (rows_of uid (messages (db_file s))))))
              (rows_of uid (messages (db_file s)) @ [new_row uid r c now (db_file s)])"
proof -
  let ?ms = "messages (db_file s) @ [new_row uid r c now (db_file s)]"
  have "rows_of uid (messages (db_file (snd (add_message uid r c now s)))) =
        drop (if sq_max_messages s < 0 then 0
              else length (rows_of uid ?ms) - nat (sq_max_messages s)) (rows_of uid ?ms)"
    unfolding add_message_messages [OF assms(2-5)]
    by (rule rows_of_trim_same) (rule inserted_increasing [OF assms(1)])
  then show ?thesis
    by (simp add: rows_of_snoc window_start_def)
qed

lemma add_message_rows_other:
  assumes "v \<noteq> uid"
  shows "rows_of v (messages (db_file (snd (add_message uid r c now s)))) =
         rows_of v (messages (db_file s))"
proof (cases uid r c now s rule: add_message_cases)
  case raised
  then show ?thesis by simp
next
  case overflow
  with assms show ?thesis by (simp add: add_message_overflow rows_of_snoc)
next
  case returned
  then have "rows_of v (messages (db_file (snd (add_message uid r c now s)))) =
             rows_of v (messages (db_file s) @ [new_row uid r c now (db_file s)])"
    by (simp only: add_message_messages rows_of_trim_other [OF assms])
  with assms show ?thesis by (simp add: rows_of_snoc)
qed

lemma add_message_increasing:
  assumes "ids_increasing (db_file s)"
  shows "ids_increasing (db_file (snd (add_message uid r c now s)))"
proof (cases uid r c now s rule: add_message_cases)
  case raised
  with assms show ?thesis by simp
next
  case overflow
  with inserted_increasing [OF assms, of uid r c now] show ?thesis
    by (simp add: add_message_overflow ids_increasing_def)
next
  case returned
  then show ?thesis
    unfolding ids_increasing_def
    by (simp only: add_message_messages)
       (rule strict_sorted_filter, rule inserted_increasing [OF assms])
qed

lemma add_message_keeps:
  "db (snd (add_message uid r c now s)) = db s"
  "sq_max_messages (snd (add_message uid r c now s)) = sq_max_messages s"
  "users (db_file (snd (add_message uid r c now s))) = users (db_file s)"
  by (cases uid r c now s rule: add_message_cases;
      simp add: add_message_overflow add_message_ok trim_messages_def)+

lemma clear_increasing:
  "ids_increasing (db_file s) \<Longrightarrow> ids_increasing (db_file (snd (clear uid s)))"
  by (simp add: clear_def ids_increasing_def strict_sorted_filter)

lemma clear_rows_same:
  "db s \<Longrightarrow> int64 uid \<Longrightarrow> rows_of uid (messages (db_file (snd (clear uid s)))) = []"
  by (simp add: clear_def rows_of_def)

lemma clear_rows_other:
  "v \<noteq> uid \<Longrightarrow> rows_of v (messages (db_file (snd (clear uid s)))) = rows_of v (messages (db_file s))"
  by (auto simp: clear_def rows_of_def intro: filter_cong)

lemma clear_open:
  "db s \<Longrightarrow> int64 uid \<Longrightarrow> fst (clear uid s) = Inr ()"
  "db (snd (clear uid s)) = db s"
  "sq_max_messages (snd (clear uid s)) = sq_max_messages s"
  "users (db_file (snd (clear uid s))) = users (db_file s)"
  by (simp_all add: clear_def)

lemma clear_raises: "\<not> (db s \<and> int64 uid) \<Longrightarrow> snd (clear uid s) = s"
  by (auto simp: clear_def)


lemma get_message_count_open:
  "db s \<Longrightarrow> int64 uid \<Longrightarrow>
   get_message_count uid s = (Inr (int (length (rows_of uid (messages (db_file s))))), s)"
  by (simp add: get_message_count_def)

lemma get_history_keeps: "snd (get_history uid s) = s"
  by (simp add: get_history_def)

lemma get_message_count_keeps: "snd (get_message_count uid s) = s"
  by (simp add: get_message_count_def)

subsection \<open>The in-memory store\<close>











lemma mem_get_history_stored:
  "fst (mem_get_history uid s) = Inr (map (\<lambda>msg. (role msg, content msg)) (stored s uid))"
  "stored (snd (mem_get_history uid s)) v = stored s v"
  "max_messages (snd (mem_get_history uid s)) = max_messages s"
  by (auto simp: mem_get_history_def stored_def getitem_def split: option.splits)

lemma mem_get_message_count_stored:
  "fst (mem_get_message_count uid s) = Inr (int (length (stored s uid)))"
  "stored (snd (mem_get_message_count uid s)) v = stored s v"
  "max_messages (snd (mem_get_message_count uid s)) = max_messages s"
  by (auto simp: mem_get_message_count_def stored_def getitem_def split: option.splits)

lemma mem_clear_stored:
  "fst (mem_clear uid s) = Inr ()"
  "stored (snd (mem_clear uid s)) uid = []"
  "v \<noteq> uid \<Longrightarrow> stored (snd (mem_clear uid s)) v = stored s v"
  "max_messages (snd (mem_clear uid s)) = max_messages s"
  by (auto simp: mem_clear_def stored_def getitem_def split: option.splits)





subsection \<open>Runs of the SQLite store\<close>

lemma sql_call_keeps:
  "db (snd (sql_call c now s)) = db s"
  "sq_max_messages (snd (sql_call c now s)) = sq_max_messages s"
  by (cases c; simp add: add_message_keeps clear_open get_history_keeps get_message_count_keeps)+

lemma sql_call_increasing:
  "ids_increasing (db_file s) \<Longrightarrow> ids_increasing (db_file (snd (sql_call c now s)))"
  by (cases c)
     (simp_all add: add_message_increasing clear_increasing get_history_keeps get_message_count_keeps)


lemma sql_run_keeps:
  "db (snd (sql_run cs s)) = db s \<and> sq_max_messages (snd (sql_run cs s)) = sq_max_messages s"
proof (induction cs arbitrary: s)
  case Nil
  then show ?case by simp
next
  case (Cons a cs)
  obtain c now where a: "a = (c, now)" by (cases a)
  show ?case unfolding a by (simp add: Cons.IH sql_call_keeps)
qed


lemma fresh_store_ok:
  "db (fresh_store n)" "ids_increasing (db_file (fresh_store n))"
  "sq_max_messages (fresh_store n) = n" "user_rows u (fresh_store n) = []"
  "users (db_file (fresh_store n)) = []"
  by (simp_all add: init_def new_store_def empty_database_def ids_increasing_def rows_of_def)

subsection \<open>The stores simulate each other\<close>







subsection \<open>The window bound in the SQLite store\<close>

lemma add_message_bound_same:
  assumes "ids_increasing (db_file s)" "beartype_role r" "db s" "int64 uid"
    "int64 (sq_max_messages s)" "0 \<le> sq_max_messages s"
  shows "int (length (rows_of uid (messages (db_file (snd (add_message uid r c now s)))))) \<le>
         sq_max_messages s"
  using assms(6) by (simp add: add_message_rows_same [OF assms(1-5)] window_start_def)

lemma add_message_bound:
  assumes "db s" "ids_increasing (db_file s)" "int64 (sq_max_messages s)" "0 \<le> sq_max_messages s"
    and "int (length (rows_of u (messages (db_file s)))) \<le> sq_max_messages s"
  shows "int (length (rows_of u (messages (db_file (snd (add_message uid r c now s)))))) \<le>
         sq_max_messages s"
proof (cases "beartype_role r \<and> int64 uid \<and> u = uid")
  case True
  with add_message_bound_same [OF assms(2) _ assms(1) _ assms(3,4), of r uid c now]
  show ?thesis by simp
next
  case False
  then consider "\<not> (beartype_role r \<and> db s \<and> int64 uid)" | "u \<noteq> uid" by blast
  then show ?thesis
  proof cases
    case 1
    with assms(5) show ?thesis by (simp add: add_message_raises)
  next
    case 2
    with assms(5) show ?thesis by (simp add: add_message_rows_other)
  qed
qed

lemma clear_bound:
  assumes "int (length (rows_of u (messages (db_file s)))) \<le> n" "0 \<le> n"
  shows "int (length (rows_of u (messages (db_file (snd (clear uid s)))))) \<le> n"
proof (cases "db s \<and> int64 uid")
  case True
  with assms show ?thesis
    by (cases "u = uid") (simp_all add: clear_rows_same clear_rows_other)
next
  case False
  with assms show ?thesis by (simp add: clear_raises)
qed

lemma sql_call_bound:
  assumes "db s" "ids_increasing (db_file s)" "int64 (sq_max_messages s)" "0 \<le> sq_max_messages s"
    and "int (length (rows_of u (messages (db_file s)))) \<le> sq_max_messages s"
  shows "int (length (rows_of u (messages (db_file (snd (sql_call c now s)))))) \<le> sq_max_messages s"
  using assms
  by (cases c)
     (simp_all add: add_message_bound clear_bound get_history_keeps get_message_count_keeps)

lemma sql_run_bound:
  assumes "db s" "ids_increasing (db_file s)" "int64 (sq_max_messages s)" "0 \<le> sq_max_messages s"
    and "int (length (rows_of u (messages (db_file s)))) \<le> sq_max_messages s"
  shows "int (length (rows_of u (messages (db_file (snd (sql_run cs s)))))) \<le> sq_max_messages s"
  using assms
proof (induction cs arbitrary: s)
  case Nil
  then show ?case by simp
next
  case (Cons a cs)
  obtain c now where a: "a = (c, now)" by (cases a)
  have "int (length (rows_of u (messages (db_file (snd (sql_run cs (snd (sql_call c now s)))))))) \<le>
          sq_max_messages (snd (sql_call c now s))"
    using Cons.prems
    by (intro Cons.IH) (simp_all add: sql_call_keeps sql_call_increasing sql_call_bound)
  then show ?case by (simp add: a sql_call_keeps)
qed

text \<open>
  The SQLite store keeps the window within every limit from 0 up, along every run from a
  fresh store.
\<close>

lemma sqlite_window_bounded:
  assumes "0 \<le> n" "int64 n" "int64 uid"
  shows "\<exists>k. fst (get_message_count uid (snd (sql_run cs (fresh_store n)))) = Inr k \<and> k \<le> n"
proof -
  have "int (length (user_rows uid (snd (sql_run cs (fresh_store n))))) \<le> sq_max_messages (fresh_store n)"
    using assms by (intro sql_run_bound) (simp_all add: fresh_store_ok)
  then show ?thesis
    using assms(3) by (simp add: get_message_count_open sql_run_keeps fresh_store_ok)
qed

lemma trimmed_are_oldest:
  assumes "ids_increasing d"
  shows "\<forall>x \<in> set (take k (rows_of uid (messages d) @ [new_row uid r c now d])).
         \<forall>y \<in> set (drop k (rows_of uid (messages d) @ [new_row uid r c now d])). row_id x < row_id y"
proof -
  let ?all = "rows_of uid (messages d) @ [new_row uid r c now d]"
  have "sorted_wrt (<) (map row_id (rows_of uid (messages d @ [new_row uid r c now d])))"
    by (rule rows_of_increasing) (rule inserted_increasing [OF assms])
  then have "sorted_wrt (<) (map row_id ?all)"
    by (simp only: rows_of_snoc)
  then have "sorted_wrt (<) (map row_id (take k ?all @ drop k ?all))"
    by (simp only: append_take_drop_id)
  then show ?thesis
    unfolding map_append sorted_wrt_append by auto
qed

subsection \<open>Reads\<close>



lemma get_history_other_add:
  assumes "v \<noteq> uid"
  shows "fst (get_history uid (snd (add_message v r c now s))) = fst (get_history uid s)"
  using assms by (simp add: get_history_def add_message_keeps add_message_rows_other)






subsection \<open>The example states, evaluated\<close>

lemma two_message_store_eq:
  "two_message_store =
     \<lparr>db_file = \<lparr>users = [],
        messages = [\<lparr>row_id = 1, row_user_id = 42, row_role = ''user'', row_content = ''a'',
                      created_at = \<lparr>date_part = 0, time_part = 1\<rparr>\<rparr>,
                    \<lparr>row_id = 2, row_user_id = 42, row_role = ''assistant'', row_content = ''b'',
                      created_at = \<lparr>date_part = 0, time_part = 2\<rparr>\<rparr>],
        sqlite_sequence = 2\<rparr>,
      sq_max_messages = 3, db = True\<rparr>"
  by (simp add: two_message_store_def init_def new_store_def empty_database_def add_message_def
        add_message_insert_def add_message_trim_def int64_def
        beartype_role_def insert_message_def new_row_def next_id_def trim_messages_def kept_ids_def
        rows_of_def sql_limit_def datetime_now_def)

lemma full_window_store_eq:
  "full_window_store =
     \<lparr>db_file = \<lparr>users = [],
        messages = [\<lparr>row_id = 1, row_user_id = 42, row_role = ''user'', row_content = ''a'',
                      created_at = \<lparr>date_part = 0, time_part = 1\<rparr>\<rparr>,
                    \<lparr>row_id = 2, row_user_id = 42, row_role = ''assistant'', row_content = ''b'',
                      created_at = \<lparr>date_part = 0, time_part = 2\<rparr>\<rparr>,
                    \<lparr>row_id = 3, row_user_id = 42, row_role = ''user'', row_content = ''c'',
                      created_at = \<lparr>date_part = 0, time_part = 3\<rparr>\<rparr>],
        sqlite_sequence = 3\<rparr>,
      sq_max_messages = 3, db = True\<rparr>"
  by (simp add: full_window_store_def init_def new_store_def empty_database_def add_message_def
        add_message_insert_def add_message_trim_def int64_def
        beartype_role_def insert_message_def new_row_def next_id_def trim_messages_def kept_ids_def
        rows_of_def sql_limit_def datetime_now_def)

lemma registered_store_eq:
  "registered_store =
     \<lparr>db_file = \<lparr>users = [\<lparr>user_id = 1, username = Some ''alice'',
                              first_seen = \<lparr>date_part = 0, time_part = 10\<rparr>,
                              last_seen = \<lparr>date_part = 0, time_part = 10\<rparr>\<rparr>],
        messages = [], sqlite_sequence = 0\<rparr>,
      sq_max_messages = 20, db = True\<rparr>"
  by (simp add: registered_store_def init_def new_store_def empty_database_def upsert_user_def
        upsert_row_def find_user_def datetime_now_def int64_def)

lemma stats_scenario_eq:
  "stats_scenario =
     \<lparr>db_file = \<lparr>users =
         [\<lparr>user_id = 1, username = Some ''alice'', first_seen = \<lparr>date_part = 0, time_part = 100\<rparr>,
            last_seen = \<lparr>date_part = 0, time_part = 100\<rparr>\<rparr>,
          \<lparr>user_id = 2, username = None, first_seen = \<lparr>date_part = 1, time_part = 0\<rparr>,
            last_seen = \<lparr>date_part = 1, time_part = 0\<rparr>\<rparr>],
        messages =
         [\<lparr>row_id = 1, row_user_id = 1, row_role = ''user'', row_content = ''a'',
            created_at = \<lparr>date_part = 0, time_part = 200\<rparr>\<rparr>,
          \<lparr>row_id = 2, row_user_id = 1, row_role = ''assistant'', row_content = ''b'',
            created_at = \<lparr>date_part = 0, time_part = 300\<rparr>\<rparr>,
          \<lparr>row_id = 3, row_user_id = 2, row_role = ''user'', row_content = ''c'',
            created_at = \<lparr>date_part = 1, time_part = 100\<rparr>\<rparr>,
          \<lparr>row_id = 4, row_user_id = 2, row_role = ''assistant'', row_content = ''d'',
            created_at = \<lparr>date_part = 1, time_part = 200\<rparr>\<rparr>,
          \<lparr>row_id = 5, row_user_id = 2, row_role = ''user'', row_content = ''e'',
            created_at = \<lparr>date_part = 1, time_part = 300\<rparr>\<rparr>],
        sqlite_sequence = 5\<rparr>,
      sq_max_messages = 20, db = True\<rparr>"
  by (simp add: stats_scenario_def init_def new_store_def empty_database_def upsert_user_def
        upsert_row_def find_user_def add_message_def add_message_insert_def add_message_trim_def
        int64_def beartype_role_def insert_message_def
        new_row_def next_id_def trim_messages_def kept_ids_def rows_of_def sql_limit_def
        datetime_now_def)

subsection \<open>The two parts of \<^verbatim>\<open>add_message\<close>\<close>

text \<open>
  A call between the two parts that leaves the store as it finds it does not change what
  \<^verbatim>\<open>add_message\<close> does.
\<close>

lemma add_message_interleaved_reader:
  assumes "\<And>t. snd (other t) = t"
  shows "snd (add_message_interleaved other uid r c now s) = add_message uid r c now s"
proof (cases "add_message_insert uid r c now s")
  case (Pair x s1)
  obtain y where y: "other s1 = (y, s1)"
    using assms [of s1] by (cases "other s1") simp
  show ?thesis
    by (cases x) (simp_all add: add_message_interleaved_def add_message_def Pair y split: prod.splits)
qed

subsection \<open>The users table\<close>






lemma find_user_None: "find_user uid us = None \<longleftrightarrow> uid \<notin> user_id ` set us"
  unfolding find_user_def by (auto simp: find_None_iff)

lemma upsert_row_unique:
  assumes "distinct (map user_id us)"
  shows "distinct (map user_id (upsert_row uid name now us))"
proof (cases "find_user uid us")
  case None
  then have "uid \<notin> user_id ` set us" by (simp add: find_user_None)
  with None assms show ?thesis
    by (simp add: upsert_row_def)
next
  case (Some u)
  have "map user_id (map (\<lambda>u. if user_id u = uid
            then u\<lparr>username := coalesce name (username u), last_seen := datetime_now now\<rparr>
            else u) us) = map user_id us"
    by (induction us) simp_all
  with Some assms show ?thesis by (simp only: upsert_row_def option.case)
qed

lemma upsert_user_unique:
  "users_unique (db_file s) \<Longrightarrow> users_unique (db_file (snd (upsert_user uid name now s)))"
  by (simp add: upsert_user_def users_unique_def upsert_row_unique)

lemma upsert_user_increasing:
  "ids_increasing (db_file s) \<Longrightarrow> ids_increasing (db_file (snd (upsert_user uid name now s)))"
  by (simp add: upsert_user_def ids_increasing_def)

subsection \<open>Counting rows\<close>

lemma count_users:
  "users_unique d \<Longrightarrow> length (users d) = card (user_id ` set (users d))"
  unfolding users_unique_def using distinct_card [of "map user_id (users d)"] by simp

lemma distinct_messages: "ids_increasing d \<Longrightarrow> distinct (messages d)"
  unfolding ids_increasing_def by (auto simp: strict_sorted_iff distinct_map)

lemma count_messages:
  assumes "ids_increasing d"
  shows "length (messages d) = card (set (messages d))"
    and "length (filter P (messages d)) = card {x \<in> set (messages d). P x}"
proof -
  show "length (messages d) = card (set (messages d))"
    using distinct_messages [OF assms] by (simp add: distinct_card)
  have "distinct (filter P (messages d))"
    using distinct_messages [OF assms] by simp
  then have "card (set (filter P (messages d))) = length (filter P (messages d))"
    by (rule distinct_card)
  then show "length (filter P (messages d)) = card {x \<in> set (messages d). P x}"
    by simp
qed

lemma count_distinct_users:
  "length (remdups (map row_user_id (filter P ms))) = card (row_user_id ` {x \<in> set ms. P x})"
  by (simp add: length_remdups_card_conv)

subsection \<open>The bounded window\<close>

text \<open>
  C1. The in-memory store does not keep the bound at \<open>max_messages = 0\<close>:
  \<^verbatim>\<open>messages[-0:]\<close> is the whole list, so \<^verbatim>\<open>add_message\<close> trims nothing and
  \<^verbatim>\<open>get_message_count\<close> returns 1 after one call and 2 after two, above the limit,
  against the comment \<^verbatim>\<open>Keep only the last max_messages\<close>. The SQLite store given
  the same calls at the same limit keeps no row and returns 0.
\<close>

theorem in_memory_window_exceeded_at_limit_zero:
  "fst (mem_run [Add_message 42 ''user'' ''a'', Get_message_count 42,
                 Add_message 42 ''assistant'' ''b'', Get_message_count 42, Get_history 42]
          (new_history 0)) =
     [Returned_None, Returned_count 1, Returned_None, Returned_count 2,
      Returned_history [(''user'', ''a''), (''assistant'', ''b'')]] \<and>
   fst (sql_run [(Add_message 42 ''user'' ''a'', 1), (Get_message_count 42, 2),
                 (Add_message 42 ''assistant'' ''b'', 3), (Get_message_count 42, 4),
                 (Get_history 42, 5)]
          (fresh_store 0)) =
     [Returned_None, Returned_count 0, Returned_None, Returned_count 0, Returned_history []]"
  by (simp add: init_def new_store_def empty_database_def add_message_def add_message_insert_def
        add_message_trim_def int64_def beartype_role_def
        insert_message_def new_row_def next_id_def trim_messages_def kept_ids_def rows_of_def
        sql_limit_def get_history_def get_message_count_def outcome_of_def new_history_def
        mem_add_message_def mem_get_history_def mem_get_message_count_def getitem_def
        slice_from_def Let_def)

subsection \<open>The order of reads\<close>



subsection \<open>The trim scenario\<close>

text \<open>
  C3. With \<open>max_messages = 3\<close>, appending (user, "a"), (assistant, "b"), (user, "c"),
  (assistant, "d") for user 42 to a fresh store, at whatever times, leaves
  \<^verbatim>\<open>get_history(42)\<close> equal to [(assistant, "b"), (user, "c"), (assistant, "d")] and
  \<^verbatim>\<open>get_message_count(42)\<close> equal to 3, in the SQLite store and in the in-memory store.
  The three rows the SQLite store keeps are those with the highest identifiers, 2, 3 and 4.
\<close>

theorem trim_scenario:
  "fst (sql_run [(Add_message 42 ''user'' ''a'', t1), (Add_message 42 ''assistant'' ''b'', t2),
                 (Add_message 42 ''user'' ''c'', t3), (Add_message 42 ''assistant'' ''d'', t4),
                 (Get_history 42, t5), (Get_message_count 42, t6)]
          (init (new_store empty_database 3))) =
     [Returned_None, Returned_None, Returned_None, Returned_None,
      Returned_history [(''assistant'', ''b''), (''user'', ''c''), (''assistant'', ''d'')],
      Returned_count 3] \<and>
   fst (mem_run [Add_message 42 ''user'' ''a'', Add_message 42 ''assistant'' ''b'',
                 Add_message 42 ''user'' ''c'', Add_message 42 ''assistant'' ''d'',
                 Get_history 42, Get_message_count 42]
          (new_history 3)) =
     [Returned_None, Returned_None, Returned_None, Returned_None,
      Returned_history [(''assistant'', ''b''), (''user'', ''c''), (''assistant'', ''d'')],
      Returned_count 3] \<and>
   map row_id (user_rows 42 (snd (sql_run
       [(Add_message 42 ''user'' ''a'', t1), (Add_message 42 ''assistant'' ''b'', t2),
        (Add_message 42 ''user'' ''c'', t3), (Add_message 42 ''assistant'' ''d'', t4)]
       (fresh_store 3)))) = [2, 3, 4]"
  by (simp add: init_def new_store_def empty_database_def add_message_def add_message_insert_def add_message_trim_def int64_def beartype_role_def
        insert_message_def new_row_def next_id_def trim_messages_def kept_ids_def rows_of_def
        sql_limit_def get_history_def get_message_count_def outcome_of_def new_history_def
        mem_add_message_def add_message_insert_def add_message_trim_def int64_def mem_get_history_def mem_get_message_count_def getitem_def
        slice_from_def Let_def)

subsection \<open>Registering users\<close>




subsection \<open>Clearing a history\<close>

text \<open>
  C5 (as amended). On an open store, for a user identifier that SQLite can hold,
  \<^verbatim>\<open>clear\<close> returns normally, whether the user has messages or not; afterwards the
  user has no row, the rows of every other user and the whole \<^verbatim>\<open>users\<close> table are as
  before, \<^verbatim>\<open>get_history\<close> returns the empty list and \<^verbatim>\<open>get_message_count\<close>
  returns 0; a second \<^verbatim>\<open>clear\<close> returns normally and leaves the store as the first
  left it. The in-memory \<^verbatim>\<open>clear\<close> does the same for every identifier (it has no
  user records), and leaves what \<^verbatim>\<open>get_history\<close> returns for other users as it was.
\<close>

theorem clear_history_idempotent:
  "(db s \<and> int64 uid \<longrightarrow>
      fst (clear uid s) = Inr () \<and>
      user_rows uid (snd (clear uid s)) = [] \<and>
      (v \<noteq> uid \<longrightarrow> user_rows v (snd (clear uid s)) = user_rows v s) \<and>
      users (db_file (snd (clear uid s))) = users (db_file s) \<and>
      fst (get_history uid (snd (clear uid s))) = Inr [] \<and>
      fst (get_message_count uid (snd (clear uid s))) = Inr 0 \<and>
      clear uid (snd (clear uid s)) = (Inr (), snd (clear uid s))) \<and>
   fst (mem_clear uid m) = Inr () \<and>
   fst (mem_get_history uid (snd (mem_clear uid m))) = Inr [] \<and>
   fst (mem_get_message_count uid (snd (mem_clear uid m))) = Inr 0 \<and>
   (v \<noteq> uid \<longrightarrow>
      fst (mem_get_history v (snd (mem_clear uid m))) = fst (mem_get_history v m)) \<and>
   mem_clear uid (snd (mem_clear uid m)) = (Inr (), snd (mem_clear uid m))"
proof -
  have "user_rows v (snd (clear uid s)) = user_rows v s" if "v \<noteq> uid"
    using that by (rule clear_rows_other)
  moreover have "fst (get_history uid (snd (clear uid s))) = Inr []"
    "fst (get_message_count uid (snd (clear uid s))) = Inr 0" if "db s" "int64 uid"
    using that by (simp_all add: get_history_def get_message_count_def clear_open clear_rows_same)
  moreover have "clear uid (snd (clear uid s)) = (Inr (), snd (clear uid s))" if "db s" "int64 uid"
    using that by (simp add: clear_def)
  moreover have "mem_clear uid (snd (mem_clear uid m)) = (Inr (), snd (mem_clear uid m))"
    by (simp add: mem_clear_def)
  ultimately show ?thesis
    by (simp add: clear_open clear_rows_same mem_clear_stored mem_get_history_stored
          mem_get_message_count_stored)
qed

theorem clear_history_idempotent_witness:
  "db two_message_store \<and> int64 42 \<and> (7::int) \<noteq> 42 \<and>
   fst (clear 42 two_message_store) = Inr () \<and>
   user_rows 42 (snd (clear 42 two_message_store)) = [] \<and>
   user_rows 7 (snd (clear 42 two_message_store)) = user_rows 7 two_message_store \<and>
   fst (get_history 42 (snd (clear 42 two_message_store))) = Inr [] \<and>
   fst (get_message_count 42 (snd (clear 42 two_message_store))) = Inr 0 \<and>
   clear 42 (snd (clear 42 two_message_store)) = (Inr (), snd (clear 42 two_message_store)) \<and>
   fst (mem_get_history 7 (snd (mem_clear 42 (new_history 3)))) =
     fst (mem_get_history 7 (new_history 3))"
proof -
  have h: "db two_message_store" "int64 42" "(7::int) \<noteq> 42"
    by (simp_all add: two_message_store_eq int64_def)
  from h clear_history_idempotent [of two_message_store 42 7 "new_history 3"]
  show ?thesis by blast
qed

text \<open>
  C5 as stated fails for a user identifier beyond the 64-bit range: binding it to the
  \<^verbatim>\<open>DELETE\<close> raises, where the in-memory store clears and returns.
\<close>

theorem clear_raises_outside_int64:
  "clear 9223372036854775808 (fresh_store 20) = (Inl OverflowError, fresh_store 20) \<and>
   fst (mem_clear 9223372036854775808 (new_history 20)) = Inr ()"
  by (simp add: clear_def init_def new_store_def int64_def mem_clear_def)

subsection \<open>Users without messages\<close>

text \<open>
  C6 (as amended). On an open store \<^verbatim>\<open>get_history\<close> and \<^verbatim>\<open>get_message_count\<close>
  return normally for every user identifier that SQLite can hold; for such an identifier
  with no stored message, an unknown user or a registered one with an empty history, they
  return the empty list and 0. The in-memory store returns normally for every identifier,
  and returns the empty list and 0 for a key that is absent or holds the empty list.
\<close>

theorem not_found_is_not_an_error:
  "(db s \<and> int64 uid \<longrightarrow>
      (\<exists>h. fst (get_history uid s) = Inr h) \<and>
      (\<exists>k. fst (get_message_count uid s) = Inr k) \<and>
      (user_rows uid s = [] \<longrightarrow>
         fst (get_history uid s) = Inr [] \<and> fst (get_message_count uid s) = Inr 0)) \<and>
   (\<exists>h. fst (mem_get_history uid m) = Inr h) \<and>
   (\<exists>k. fst (mem_get_message_count uid m) = Inr k) \<and>
   (history m uid = None \<or> history m uid = Some [] \<longrightarrow>
      fst (mem_get_history uid m) = Inr [] \<and> fst (mem_get_message_count uid m) = Inr 0)"
  by (auto simp: get_history_def get_message_count_def mem_get_history_stored
        mem_get_message_count_stored stored_def getitem_def)

theorem not_found_is_not_an_error_witness:
  "db registered_store \<and> int64 1 \<and> int64 7 \<and>
   find_user 1 (users (db_file registered_store)) \<noteq> None \<and> user_rows 1 registered_store = [] \<and>
   find_user 7 (users (db_file registered_store)) = None \<and> user_rows 7 registered_store = [] \<and>
   history (new_history 20) 7 = None \<and>
   fst (get_history 1 registered_store) = Inr [] \<and>
   fst (get_message_count 1 registered_store) = Inr 0 \<and>
   fst (get_history 7 registered_store) = Inr [] \<and>
   fst (get_message_count 7 registered_store) = Inr 0 \<and>
   fst (mem_get_history 7 (new_history 20)) = Inr [] \<and>
   fst (mem_get_message_count 7 (new_history 20)) = Inr 0"
proof -
  have h: "db registered_store" "int64 1" "int64 7"
    "find_user 1 (users (db_file registered_store)) \<noteq> None" "user_rows 1 registered_store = []"
    "find_user 7 (users (db_file registered_store)) = None" "user_rows 7 registered_store = []"
    "history (new_history 20) 7 = None"
    by (simp_all add: registered_store_eq find_user_def rows_of_def new_history_def int64_def)
  from h not_found_is_not_an_error [of registered_store 1 "new_history 20"]
    not_found_is_not_an_error [of registered_store 7 "new_history 20"]
  show ?thesis by blast
qed

text \<open>
  C6 as stated fails for an unknown user whose identifier is beyond the 64-bit range: the
  store holds neither a record nor a message for it, and both queries raise.
\<close>

theorem unknown_user_outside_int64_raises:
  "find_user 9223372036854775808 (users (db_file registered_store)) = None \<and>
   user_rows 9223372036854775808 registered_store = [] \<and>
   get_history 9223372036854775808 registered_store = (Inl OverflowError, registered_store) \<and>
   get_message_count 9223372036854775808 registered_store = (Inl OverflowError, registered_store)"
  by (simp add: registered_store_eq find_user_def rows_of_def get_history_def
        get_message_count_def int64_def)

subsection \<open>The role constraint\<close>

text \<open>
  C7. A call of \<^verbatim>\<open>add_message\<close> whose role is neither \<^verbatim>\<open>'user'\<close> nor
  \<^verbatim>\<open>'assistant'\<close> raises the type-check violation of the decorated method, before the
  body runs: whatever the state of the store, open or not, nothing is written and the
  store is left as it was. This holds for both stores. Behind that guard the table's
  \<^verbatim>\<open>CHECK\<close> constraint refuses the same roles.
\<close>

theorem role_rejected_at_boundary:
  "r \<noteq> ''user'' \<Longrightarrow> r \<noteq> ''assistant'' \<Longrightarrow>
   add_message uid r c now s = (Inl BeartypeCallHintParamViolation, s) \<and>
   mem_add_message uid r c m = (Inl BeartypeCallHintParamViolation, m) \<and>
   insert_message uid r c now d = Inl IntegrityError"
  by (simp add: add_message_def add_message_insert_def add_message_trim_def int64_def mem_add_message_def add_message_insert_def add_message_trim_def int64_def insert_message_def beartype_role_def)

theorem role_rejected_at_boundary_witness:
  "''system'' \<noteq> ''user'' \<and> ''system'' \<noteq> ''assistant'' \<and>
   add_message 42 ''system'' ''hello'' 0 (init (new_store empty_database 20)) =
     (Inl BeartypeCallHintParamViolation, init (new_store empty_database 20)) \<and>
   mem_add_message 42 ''system'' ''hello'' (new_history 20) =
     (Inl BeartypeCallHintParamViolation, new_history 20) \<and>
   insert_message 42 ''system'' ''hello'' 0 empty_database = Inl IntegrityError"
  using role_rejected_at_boundary [of "''system''" 42 "''hello''" 0
          "init (new_store empty_database 20)" "new_history 20" empty_database]
  by simp

subsection \<open>Aggregate statistics\<close>

text \<open>
  C8 (as amended). On an open store whose identifiers increase and whose user identifiers
  are unique, \<^verbatim>\<open>get_stats\<close> returns the number of distinct users in \<^verbatim>\<open>users\<close>,
  the number of messages, the number of messages with role \<^verbatim>\<open>'user'\<close>, and the number
  of distinct users with a message whose creation date, in UTC, is not before the current
  UTC date. In particular, after registering 2 users and recording 5 messages, 3 with role
  \<^verbatim>\<open>'user'\<close> and 2 with role \<^verbatim>\<open>'assistant'\<close>, with only user 2 writing on the
  current UTC day, it returns 2, 5, 3 and 1.
\<close>

theorem get_stats_counts:
  "(db s \<and> ids_increasing (db_file s) \<and> users_unique (db_file s) \<longrightarrow>
      fst (get_stats now s) =
        Inr \<lparr>total_users = int (card (user_id ` set (users (db_file s)))),
             total_messages = int (card (set (messages (db_file s)))),
             user_messages = int (card {x \<in> set (messages (db_file s)). row_role x = ''user''}),
             active_today = int (card (row_user_id `
                {x \<in> set (messages (db_file s)). date_now now \<le> date_part (created_at x)}))\<rparr>) \<and>
   fst (get_stats 87000 stats_scenario) =
     Inr \<lparr>total_users = 2, total_messages = 5, user_messages = 3, active_today = 1\<rparr>"
proof -
  have "fst (get_stats 87000 stats_scenario) =
     Inr \<lparr>total_users = 2, total_messages = 5, user_messages = 3, active_today = 1\<rparr>"
    by (simp add: stats_scenario_eq get_stats_def datetime_ge_date_def date_now_def)
  moreover have "fst (get_stats now s) =
        Inr \<lparr>total_users = int (card (user_id ` set (users (db_file s)))),
             total_messages = int (card (set (messages (db_file s)))),
             user_messages = int (card {x \<in> set (messages (db_file s)). row_role x = ''user''}),
             active_today = int (card (row_user_id `
                {x \<in> set (messages (db_file s)). date_now now \<le> date_part (created_at x)}))\<rparr>"
    if "db s" "ids_increasing (db_file s)" "users_unique (db_file s)"
    using that
    by (simp add: get_stats_def Let_def datetime_ge_date_def count_users count_messages
          count_distinct_users)
  ultimately show ?thesis by blast
qed

theorem get_stats_counts_witness:
  "db stats_scenario \<and> ids_increasing (db_file stats_scenario) \<and>
   users_unique (db_file stats_scenario) \<and>
   fst (get_stats 87000 stats_scenario) =
     Inr \<lparr>total_users = int (card (user_id ` set (users (db_file stats_scenario)))),
          total_messages = int (card (set (messages (db_file stats_scenario)))),
          user_messages =
            int (card {x \<in> set (messages (db_file stats_scenario)). row_role x = ''user''}),
          active_today = int (card (row_user_id `
            {x \<in> set (messages (db_file stats_scenario)).
               date_now 87000 \<le> date_part (created_at x)}))\<rparr>"
proof -
  have h: "db stats_scenario" "ids_increasing (db_file stats_scenario)"
    "users_unique (db_file stats_scenario)"
    by (simp_all add: stats_scenario_eq ids_increasing_def users_unique_def)
  from h get_stats_counts [of stats_scenario 87000]
  show ?thesis by blast
qed

text \<open>
  C8 as stated fails where the server-local date and the UTC date differ. On a server
  eleven hours ahead of UTC, a message written at 23:30 UTC of day 0 (10:30 local time
  of day 1) and counted at 00:30 UTC of day 1 (11:30 local time of the same local day)
  is a message of today by the local date, but \<^verbatim>\<open>get_stats\<close> reports no active user.
\<close>

theorem active_today_is_by_utc_date:
  "fst (get_stats 88200 late_evening_store) =
     Inr \<lparr>total_users = 1, total_messages = 1, user_messages = 1, active_today = 0\<rparr> \<and>
   spec_active_today 39600 88200 (db_file late_evening_store) = 1"
  by (simp add: late_evening_store_def init_def new_store_def empty_database_def upsert_user_def
        upsert_row_def find_user_def add_message_def add_message_insert_def add_message_trim_def int64_def beartype_role_def insert_message_def
        new_row_def next_id_def trim_messages_def kept_ids_def rows_of_def sql_limit_def
        datetime_now_def get_stats_def datetime_ge_date_def date_now_def spec_active_today_def
        local_date_def)

subsection \<open>Atomicity of insert and trim\<close>

text \<open>
  C9. \<^verbatim>\<open>add_message\<close> is not atomic towards a reader on the shared connection. On
  a store with limit 3 that holds three messages of user 42, a call of
  \<^verbatim>\<open>get_message_count(42)\<close> scheduled between the two awaited statements of
  \<^verbatim>\<open>add_message(42, ...)\<close> returns 4, and \<^verbatim>\<open>get_history(42)\<close> scheduled there
  returns four pairs: the insert has happened and the trim has not. Once
  \<^verbatim>\<open>add_message\<close> has finished the count is 3 again.
\<close>

theorem reader_between_insert_and_trim:
  "sq_max_messages full_window_store = 3 \<and>
   fst (get_message_count 42 full_window_store) = Inr 3 \<and>
   add_message_interleaved (get_message_count 42) 42 ''assistant'' ''d'' 4 full_window_store =
     (Some (Inr 4), add_message 42 ''assistant'' ''d'' 4 full_window_store) \<and>
   fst (add_message_interleaved (get_history 42) 42 ''assistant'' ''d'' 4 full_window_store) =
     Some (Inr [(''user'', ''a''), (''assistant'', ''b''), (''user'', ''c''), (''assistant'', ''d'')]) \<and>
   fst (add_message 42 ''assistant'' ''d'' 4 full_window_store) = Inr () \<and>
   fst (get_message_count 42 (snd (add_message 42 ''assistant'' ''d'' 4 full_window_store))) = Inr 3"
  by (simp add: full_window_store_eq add_message_interleaved_def add_message_def
        add_message_insert_def add_message_trim_def int64_def beartype_role_def
        insert_message_def new_row_def next_id_def trim_messages_def kept_ids_def rows_of_def
        sql_limit_def get_history_def get_message_count_def datetime_now_def)

subsection \<open>The two stores on the shared interface\<close>




end
